theory Spec2Isabelle
  imports Main "HOL-Library.Word" "HOL-Library.Sublist"
begin

section \<open>Driver for the ASR6501 LoRaWAN unit: embedding of \<open>unit_lorawan.c\<close>\<close>

text \<open>
  The driver talks to an AT-command modem over a UART. Everything outside the file
  \<open>unit_lorawan.c\<close> is an external collaborator: the UART of the expansion port
  (\<open>core2foraws_expports_uart_write/read/read_flush\<close>), the FreeRTOS clock
  (\<open>xTaskGetTickCount\<close>, \<open>vTaskDelay\<close>) and the C allocator. They are modelled by
  an environment of outcomes (\<open>env\<close>): the result of the k-th write, of the k-th read
  and of the k-th allocation. The driver state (\<open>st\<close>) counts the calls made so far,
  carries the clock in milliseconds and records every observable call in a trace.
  The clock advances by the delays the driver asks for and by nothing else.
  Logging (\<open>ESP_LOGx\<close>) and \<open>free\<close> of local buffers have no effect on the model.
  Sizes (\<open>size_t\<close>) and the millisecond clock are natural numbers: no claim depends on
  their wrap-around.
\<close>

subsection \<open>Status codes and constants\<close>

datatype esp_err =
    ESP_OK
  | ESP_FAIL
  | ESP_ERR_NO_MEM
  | ESP_ERR_INVALID_ARG
  | ESP_ERR_INVALID_STATE
  | ESP_ERR_INVALID_SIZE
  | ESP_ERR_NOT_SUPPORTED
  | ESP_ERR_TIMEOUT

type_synonym uint8 = "8 word"
type_synonym uint16 = "16 word"
type_synonym uint32 = "32 word"

definition UNIT_LORAWAN_RESPONSE_TIMEOUT_MS :: nat where
  "UNIT_LORAWAN_RESPONSE_TIMEOUT_MS = 5000"

definition UNIT_LORAWAN_COMMAND_DELAY_MS :: nat where
  "UNIT_LORAWAN_COMMAND_DELAY_MS = 100"

definition UNIT_LORAWAN_MAX_RETRIES :: nat where
  "UNIT_LORAWAN_MAX_RETRIES = 3"


definition UNIT_LORAWAN_US915_DATA_RATE_MAX :: uint8 where
  "UNIT_LORAWAN_US915_DATA_RATE_MAX = 4"

definition UNIT_LORAWAN_US915_MAX_PAYLOAD_DR0 :: nat where
  "UNIT_LORAWAN_US915_MAX_PAYLOAD_DR0 = 11"

definition UNIT_LORAWAN_US915_MAX_PAYLOAD_DR1 :: nat where
  "UNIT_LORAWAN_US915_MAX_PAYLOAD_DR1 = 53"

definition UNIT_LORAWAN_US915_MAX_PAYLOAD_DR2 :: nat where
  "UNIT_LORAWAN_US915_MAX_PAYLOAD_DR2 = 125"

definition UNIT_LORAWAN_US915_MAX_PAYLOAD_DR3 :: nat where
  "UNIT_LORAWAN_US915_MAX_PAYLOAD_DR3 = 242"

definition UNIT_LORAWAN_US915_MAX_PAYLOAD_DR4 :: nat where
  "UNIT_LORAWAN_US915_MAX_PAYLOAD_DR4 = 242"



definition UNIT_LORAWAN_LOG_LEVEL_MAX :: uint8 where
  "UNIT_LORAWAN_LOG_LEVEL_MAX = 5"




definition us915_max_payload_sizes :: "nat list" where
  "us915_max_payload_sizes =
     [UNIT_LORAWAN_US915_MAX_PAYLOAD_DR0,
      UNIT_LORAWAN_US915_MAX_PAYLOAD_DR1,
      UNIT_LORAWAN_US915_MAX_PAYLOAD_DR2,
      UNIT_LORAWAN_US915_MAX_PAYLOAD_DR3,
      UNIT_LORAWAN_US915_MAX_PAYLOAD_DR4]"

subsection \<open>C strings: \<open>strlen\<close>, \<open>strstr\<close>, \<open>snprintf\<close>, \<open>sscanf\<close>\<close>

text \<open>
  A buffer is a list of bytes (\<open>string\<close>). Read as a C string it ends at its first
  NUL byte (\<open>cstr\<close>). \<open>strstr\<close> returns the suffix that starts at the first
  occurrence of the needle, or \<open>None\<close> for the null pointer.
\<close>

definition cstr :: "string \<Rightarrow> string" where
  "cstr bs = takeWhile (\<lambda>c. c \<noteq> CHR 0x00) bs"

definition strlen :: "string \<Rightarrow> nat" where
  "strlen bs = length (cstr bs)"

fun strstr :: "string \<Rightarrow> string \<Rightarrow> string option" where
  "strstr [] needle = (if needle = [] then Some [] else None)"
| "strstr (h # hs) needle =
     (if prefix needle (h # hs) then Some (h # hs) else strstr hs needle)"

definition contains :: "string \<Rightarrow> string \<Rightarrow> bool" where
  "contains haystack needle = (strstr haystack needle \<noteq> None)"

text \<open>\<open>snprintf\<close> into a buffer of \<open>size\<close> bytes keeps at most \<open>size - 1\<close> characters.\<close>

definition snprintf :: "nat \<Rightarrow> string \<Rightarrow> string" where
  "snprintf n s = take (n - 1) s"

definition digit_char :: "nat \<Rightarrow> char" where
  "digit_char d = ''0123456789'' ! d"

text \<open>The conversions \<open>%d\<close> and \<open>%zu\<close> of a non-negative value.\<close>

fun dec :: "nat \<Rightarrow> string" where
  "dec n = (if n < 10 then [digit_char n] else dec (n div 10) @ [digit_char (n mod 10)])"

declare dec.simps [simp del]

definition hex_digit :: "nat \<Rightarrow> char" where
  "hex_digit d = ''0123456789ABCDEF'' ! d"

text \<open>The conversion \<open>%02X\<close> of a \<open>uint8_t\<close>.\<close>

definition fmt_02X :: "uint8 \<Rightarrow> string" where
  "fmt_02X b = [hex_digit (unat b div 16), hex_digit (unat b mod 16)]"

definition isspace :: "char \<Rightarrow> bool" where
  "isspace c = (c = CHR '' '' \<or> c = CHR 0x09 \<or> c = CHR 0x0A \<or> c = CHR 0x0B
                \<or> c = CHR 0x0C \<or> c = CHR 0x0D)"


text \<open>
  \<open>sscanf\<close> directives. A literal part of the format must match the input exactly;
  \<open>%Ns\<close> skips white space and reads at most N characters up to the next white space,
  failing at the end of the input; \<open>%d\<close> skips white space and reads an optional sign
  and a non-empty run of decimal digits (a value outside \<open>int\<close> is undefined in C and
  is not modelled: the value is the mathematical integer).
\<close>

definition scan_lit :: "string \<Rightarrow> string \<Rightarrow> string option" where
  "scan_lit lit s = (if prefix lit s then Some (drop (length lit) s) else None)"

definition scan_s :: "nat \<Rightarrow> string \<Rightarrow> string option" where
  "scan_s width s =
     (let tok = take width (takeWhile (\<lambda>c. \<not> isspace c) (dropWhile isspace s))
      in if tok = [] then None else Some tok)"



subsection \<open>The environment: UART, clock and allocator\<close>

record join_monitor_params =
  callback :: nat
  user_data :: nat
  timeout_sec :: uint16

datatype event =
    UartFlush
  | UartWrite string
  | UartRead
  | Delay nat
  | JoinCallback nat bool uint8 nat
  | TaskCreate join_monitor_params
  | FreeMonitorParams
  | TaskDelete

record env =
  uart_write_result :: "nat \<Rightarrow> esp_err"
  uart_read_result :: "nat \<Rightarrow> esp_err \<times> string"
  malloc_ok :: "nat \<Rightarrow> bool"

record st =
  n_writes :: nat
  n_reads :: nat
  n_mallocs :: nat
  now_ms :: nat
  trace :: "event list"

definition core2foraws_expports_uart_read_flush :: "st \<Rightarrow> st" where
  "core2foraws_expports_uart_read_flush s = s\<lparr>trace := trace s @ [UartFlush]\<rparr>"

definition core2foraws_expports_uart_write :: "env \<Rightarrow> string \<Rightarrow> st \<Rightarrow> esp_err \<times> st" where
  "core2foraws_expports_uart_write e bytes s =
     (uart_write_result e (n_writes s),
      s\<lparr>n_writes := Suc (n_writes s), trace := trace s @ [UartWrite bytes]\<rparr>)"

definition core2foraws_expports_uart_read :: "env \<Rightarrow> st \<Rightarrow> esp_err \<times> string \<times> st" where
  "core2foraws_expports_uart_read e s =
     (fst (uart_read_result e (n_reads s)), snd (uart_read_result e (n_reads s)),
      s\<lparr>n_reads := Suc (n_reads s), trace := trace s @ [UartRead]\<rparr>)"

definition vTaskDelay :: "nat \<Rightarrow> st \<Rightarrow> st" where
  "vTaskDelay ms s = s\<lparr>now_ms := now_ms s + ms, trace := trace s @ [Delay ms]\<rparr>"

text \<open>\<open>malloc\<close>: \<open>True\<close> for a fresh block, \<open>False\<close> for the null pointer.\<close>

definition malloc :: "env \<Rightarrow> st \<Rightarrow> bool \<times> st" where
  "malloc e s = (malloc_ok e (n_mallocs s), s\<lparr>n_mallocs := Suc (n_mallocs s)\<rparr>)"

subsection \<open>Payload validation\<close>

definition unit_lorawan_validate_payload_size :: "nat \<Rightarrow> uint8 \<Rightarrow> esp_err" where
  "unit_lorawan_validate_payload_size payload_size data_rate =
     (let max_payload =
            (if data_rate = 0 then UNIT_LORAWAN_US915_MAX_PAYLOAD_DR0
             else if data_rate = 1 then UNIT_LORAWAN_US915_MAX_PAYLOAD_DR1
             else if data_rate = 2 then UNIT_LORAWAN_US915_MAX_PAYLOAD_DR2
             else if data_rate = 3 then UNIT_LORAWAN_US915_MAX_PAYLOAD_DR3
             else if data_rate = 4 then UNIT_LORAWAN_US915_MAX_PAYLOAD_DR4
             else UNIT_LORAWAN_US915_MAX_PAYLOAD_DR0)
      in if payload_size > max_payload then ESP_ERR_INVALID_SIZE else ESP_OK)"

subsection \<open>Response reader\<close>

text \<open>
  The polling loop of \<open>_unit_lorawan_wait_for_response\<close>: while less than
  \<open>timeout_ms\<close> has elapsed since \<open>start_time\<close>, read; return the bytes of the first
  read that succeeds with data, otherwise sleep 50 ms and poll again.
\<close>

function wait_loop :: "env \<Rightarrow> nat \<Rightarrow> nat \<Rightarrow> st \<Rightarrow> esp_err \<times> string \<times> st" where
  "wait_loop e start_time timeout_ms s =
     (if now_ms s - start_time < timeout_ms then
        (case core2foraws_expports_uart_read e s of
           (err, buffer, s1) \<Rightarrow>
             if err = ESP_OK \<and> length buffer > 0 then (ESP_OK, buffer, s1)
             else wait_loop e start_time timeout_ms (vTaskDelay 50 s1))
      else (ESP_ERR_TIMEOUT, [], s))"
  by pat_completeness auto
termination
  by (relation "measure (\<lambda>(e, start_time, timeout_ms, s). (start_time + timeout_ms) - now_ms s)")
     (auto simp: core2foraws_expports_uart_read_def vTaskDelay_def)

declare wait_loop.simps [simp del]

definition unit_lorawan_wait_for_response :: "env \<Rightarrow> nat \<Rightarrow> st \<Rightarrow> esp_err \<times> string \<times> st" where
  "unit_lorawan_wait_for_response e timeout_ms s = wait_loop e (now_ms s) timeout_ms s"

subsection \<open>Response parser\<close>

record lorawan_response =
  success :: bool
  response_data :: "string option"
  data_length :: nat
  error_code :: string

text \<open>The initialiser \<open>{ 0 }\<close> of a \<open>lorawan_response_t\<close>.\<close>

definition response_zero :: lorawan_response where
  "response_zero = \<lparr>success = False, response_data = None, data_length = 0, error_code = []\<rparr>"

text \<open>
  \<open>raw_response\<close> holds the \<open>response_len\<close> bytes received, followed by a NUL; the
  searches see it as a C string, the copy takes all \<open>response_len\<close> bytes. The
  structure passed in is returned unchanged when the length is 0.
\<close>

definition unit_lorawan_parse_response ::
  "env \<Rightarrow> string \<Rightarrow> lorawan_response \<Rightarrow> st \<Rightarrow> esp_err \<times> lorawan_response \<times> st" where
  "unit_lorawan_parse_response e raw_response parsed_response s =
     (if length raw_response = 0 then (ESP_ERR_INVALID_ARG, parsed_response, s)
      else
        let p = \<lparr>success = False, response_data = None, data_length = 0, error_code = []\<rparr>;
            raw = cstr raw_response
        in
        if contains raw ''OK'' then
          (let p = p\<lparr>success := True\<rparr> in
           if contains raw ''+CGMI='' \<or> contains raw ''+CSTATUS:'' \<or>
              contains raw ''+CDATARATE:'' \<or> contains raw ''+CTXP:'' \<or>
              contains raw ''+CRSSI:'' \<or> contains raw ''+DTRX:'' \<or>
              contains raw ''+CJOIN:''
           then (case malloc e s of
                   (ok, s1) \<Rightarrow>
                     (ESP_OK,
                      p\<lparr>data_length := length raw_response,
                        response_data := (if ok then Some raw_response else None)\<rparr>, s1))
           else (ESP_OK, p, s))
        else
          (case strstr raw ''ERROR'' of
             Some error_pos \<Rightarrow>
               (ESP_OK,
                p\<lparr>success := False,
                  error_code :=
                    (case scan_lit ''ERROR:'' error_pos of
                       None \<Rightarrow> []
                     | Some rest \<Rightarrow> (case scan_s 15 rest of None \<Rightarrow> [] | Some tok \<Rightarrow> tok))\<rparr>,
                s)
           | None \<Rightarrow>
               if contains raw ''+CSTATUS:'' \<or> contains raw ''+CGMI='' \<or>
                  contains raw ''+CDATARATE:'' \<or> contains raw ''+CTXP:'' \<or>
                  contains raw ''+CRSSI:'' \<or> contains raw ''+DTRX:'' \<or>
                  contains raw ''+CJOIN:''
               then (case malloc e s of
                       (ok, s1) \<Rightarrow>
                         (ESP_OK,
                          p\<lparr>success := True, data_length := length raw_response,
                            response_data := (if ok then Some raw_response else None)\<rparr>, s1))
               else (ESP_OK, p, s)))"

subsection \<open>Command framer\<close>

text \<open>
  One pass through the body of the retry loop of \<open>_unit_lorawan_send_at_command\<close>.
  It ends with \<open>Continue\<close> (the \<open>continue\<close> statement, or the end of the body
  with an error) or \<open>Break\<close>. Every caller passes the address of a local
  \<open>lorawan_response_t\<close> and a command that is not null, so the structure is passed
  and returned by value and the command is a string.
\<close>

datatype loop_ctl = Continue | Break

definition attempt ::
  "env \<Rightarrow> string \<Rightarrow> nat \<Rightarrow> nat \<Rightarrow> lorawan_response \<Rightarrow> st
     \<Rightarrow> esp_err \<times> loop_ctl \<times> lorawan_response \<times> st" where
  "attempt e at_cmd timeout_ms retry response s =
     (let s1 = (if retry > 0 then vTaskDelay 500 s else s);
          s2 = core2foraws_expports_uart_read_flush s1
      in case core2foraws_expports_uart_write e (take (strlen at_cmd) at_cmd) s2 of
           (err, s3) \<Rightarrow>
             if err \<noteq> ESP_OK then (err, Continue, response, s3)
             else
               (let s4 = vTaskDelay UNIT_LORAWAN_COMMAND_DELAY_MS s3 in
                case malloc e s4 of
                  (ok, s5) \<Rightarrow>
                    if \<not> ok then (ESP_ERR_NO_MEM, Break, response, s5)
                    else
                      (case unit_lorawan_wait_for_response e timeout_ms s5 of
                         (err, response_buffer, s6) \<Rightarrow>
                           (case (if err = ESP_OK
                                  then unit_lorawan_parse_response e response_buffer response s6
                                  else (err, response, s6)) of
                              (err, response, s7) \<Rightarrow>
                                (err, if err = ESP_OK then Break else Continue, response, s7)))))"

function send_loop ::
  "env \<Rightarrow> string \<Rightarrow> nat \<Rightarrow> nat \<Rightarrow> esp_err \<Rightarrow> lorawan_response \<Rightarrow> st
     \<Rightarrow> esp_err \<times> lorawan_response \<times> st" where
  "send_loop e at_cmd timeout_ms retry err response s =
     (if retry < UNIT_LORAWAN_MAX_RETRIES then
        (case attempt e at_cmd timeout_ms retry response s of
           (err1, ctl, response1, s1) \<Rightarrow>
             if ctl = Break then (err1, response1, s1)
             else send_loop e at_cmd timeout_ms (retry + 1) err1 response1 s1)
      else (err, response, s))"
  by pat_completeness auto
termination
  by (relation "measure (\<lambda>(e, at_cmd, timeout_ms, retry, err, response, s).
                           UNIT_LORAWAN_MAX_RETRIES - retry)") auto

declare send_loop.simps [simp del]

definition unit_lorawan_send_at_command ::
  "env \<Rightarrow> string \<Rightarrow> lorawan_response \<Rightarrow> nat \<Rightarrow> st \<Rightarrow> esp_err \<times> lorawan_response \<times> st" where
  "unit_lorawan_send_at_command e cmd response timeout_ms s =
     (case malloc e s of
        (ok, s1) \<Rightarrow>
          if \<not> ok then (ESP_ERR_NO_MEM, response, s1)
          else
            (let at_cmd_len = length cmd + 6;
                 at_cmd = snprintf at_cmd_len (''AT+'' @ cmd @ [CHR 0x0D, CHR 0x0A])
             in send_loop e at_cmd timeout_ms 0 ESP_FAIL response s1))"

definition unit_lorawan_cleanup_response :: "lorawan_response \<Rightarrow> lorawan_response" where
  "unit_lorawan_cleanup_response response =
     (if response_data response \<noteq> None
      then response\<lparr>response_data := None, data_length := 0\<rparr>
      else response)"

subsection \<open>Module control operations\<close>

definition unit_lorawan_log :: "env \<Rightarrow> uint8 \<Rightarrow> st \<Rightarrow> esp_err \<times> st" where
  "unit_lorawan_log e level s =
     (let level = (if level > UNIT_LORAWAN_LOG_LEVEL_MAX then UNIT_LORAWAN_LOG_LEVEL_MAX
                   else level);
          log_cmd = snprintf 32 (''ILOGLVL='' @ dec (unat level))
      in case unit_lorawan_send_at_command e log_cmd response_zero
                UNIT_LORAWAN_RESPONSE_TIMEOUT_MS s of
           (err, response, s1) \<Rightarrow> (err, s1))"

text \<open>
  An output parameter \<open>bool *state\<close> is \<open>None\<close> for the null pointer and
  \<open>Some b\<close> for a pointer to a variable that holds \<open>b\<close>; the operation returns
  what the variable holds afterwards.
\<close>

definition unit_lorawan_connected ::
  "env \<Rightarrow> bool option \<Rightarrow> st \<Rightarrow> esp_err \<times> bool option \<times> st" where
  "unit_lorawan_connected e state s =
     (case state of
        None \<Rightarrow> (ESP_ERR_INVALID_ARG, None, s)
      | Some _ \<Rightarrow>
          (case unit_lorawan_send_at_command e ''CSTATUS?'' response_zero
                  UNIT_LORAWAN_RESPONSE_TIMEOUT_MS s of
             (err, response, s1) \<Rightarrow>
               (err,
                Some (if err = ESP_OK \<and> success response then
                        (case response_data response of
                           None \<Rightarrow> False
                         | Some data \<Rightarrow>
                             (case strstr (cstr data) ''+CSTATUS:'' of
                                None \<Rightarrow> False
                              | Some status_pos \<Rightarrow>
                                  (case Option.bind (scan_lit ''+CSTATUS:'' status_pos) (scan_s 7) of
                                     None \<Rightarrow> False
                                   | Some status_code \<Rightarrow>
                                       contains status_code ''04'' \<or> contains status_code ''08'')))
                      else False),
                s1)))"


datatype unit_lorwan_uldlmode = DIFFERENT_FREQ_MODE | SAME_FREQ_MODE

definition unit_lorawan_uldlmode_str :: "unit_lorwan_uldlmode \<Rightarrow> string" where
  "unit_lorawan_uldlmode_str m = (case m of DIFFERENT_FREQ_MODE \<Rightarrow> ''2'' | SAME_FREQ_MODE \<Rightarrow> ''1'')"

text \<open>
  \<open>unit_lorawan_configOTTA\<close>: seven framed commands; the first one that fails
  (\<open>err != ESP_OK || !response.success\<close>) jumps to \<open>cleanup\<close>, which returns \<open>err\<close>.
  A string argument is \<open>None\<close> for the null pointer.
\<close>

definition unit_lorawan_configOTTA ::
  "env \<Rightarrow> string option \<Rightarrow> string option \<Rightarrow> string option \<Rightarrow> unit_lorwan_uldlmode \<Rightarrow> st
     \<Rightarrow> esp_err \<times> st" where
  "unit_lorawan_configOTTA e devEUI appEUI appKey mode s =
     (case (devEUI, appEUI, appKey) of
        (Some devEUI, Some appEUI, Some appKey) \<Rightarrow>
          (case unit_lorawan_send_at_command e ''CJOINMODE=0'' response_zero
                  UNIT_LORAWAN_RESPONSE_TIMEOUT_MS s of
             (err, response, s) \<Rightarrow>
          if err \<noteq> ESP_OK \<or> \<not> success response then (err, s) else
          (case unit_lorawan_send_at_command e (snprintf 64 (''CDEVEUI='' @ devEUI))
                  (unit_lorawan_cleanup_response response) UNIT_LORAWAN_RESPONSE_TIMEOUT_MS s of
             (err, response, s) \<Rightarrow>
          if err \<noteq> ESP_OK \<or> \<not> success response then (err, s) else
          (case unit_lorawan_send_at_command e (snprintf 64 (''CAPPEUI='' @ appEUI))
                  (unit_lorawan_cleanup_response response) UNIT_LORAWAN_RESPONSE_TIMEOUT_MS s of
             (err, response, s) \<Rightarrow>
          if err \<noteq> ESP_OK \<or> \<not> success response then (err, s) else
          (case unit_lorawan_send_at_command e (snprintf 80 (''CAPPKEY='' @ appKey))
                  (unit_lorawan_cleanup_response response) UNIT_LORAWAN_RESPONSE_TIMEOUT_MS s of
             (err, response, s) \<Rightarrow>
          if err \<noteq> ESP_OK \<or> \<not> success response then (err, s) else
          (case unit_lorawan_send_at_command e
                  (snprintf 32 (''CULDLMODE='' @ unit_lorawan_uldlmode_str mode))
                  (unit_lorawan_cleanup_response response) UNIT_LORAWAN_RESPONSE_TIMEOUT_MS s of
             (err, response, s) \<Rightarrow>
          if err \<noteq> ESP_OK \<or> \<not> success response then (err, s) else
          (case unit_lorawan_send_at_command e ''CCLASS=0''
                  (unit_lorawan_cleanup_response response) UNIT_LORAWAN_RESPONSE_TIMEOUT_MS s of
             (err, response, s) \<Rightarrow>
          if err \<noteq> ESP_OK \<or> \<not> success response then (err, s) else
          (case unit_lorawan_send_at_command e ''CWORKMODE=2''
                  (unit_lorawan_cleanup_response response) UNIT_LORAWAN_RESPONSE_TIMEOUT_MS s of
             (err, response, s) \<Rightarrow> (err, s))))))))
      | _ \<Rightarrow> (ESP_ERR_INVALID_ARG, s))"



subsection \<open>Payload codec and send\<close>

text \<open>
  The loop \<open>for i < length: snprintf( hex_message + i * 2, 3, "%02X", (uint8_t)message[ i ] )\<close>.
  The message is a buffer of \<open>length\<close> bytes (not a C string).
\<close>

definition hex_encode :: "string \<Rightarrow> string" where
  "hex_encode message = concat (map (\<lambda>c. snprintf 3 (fmt_02X (of_char c))) message)"


subsection \<open>Range-checked settings\<close>

definition unit_lorawan_set_data_rate :: "env \<Rightarrow> uint8 \<Rightarrow> st \<Rightarrow> esp_err \<times> st" where
  "unit_lorawan_set_data_rate e data_rate s =
     (if data_rate > UNIT_LORAWAN_US915_DATA_RATE_MAX then (ESP_ERR_INVALID_ARG, s)
      else
        (case unit_lorawan_send_at_command e
                (snprintf 32 (''CDATARATE='' @ dec (unat data_rate))) response_zero
                UNIT_LORAWAN_RESPONSE_TIMEOUT_MS s of
           (err, response, s1) \<Rightarrow> (err, s1)))"

definition unit_lorawan_set_retries :: "env \<Rightarrow> uint8 \<Rightarrow> uint8 \<Rightarrow> st \<Rightarrow> esp_err \<times> st" where
  "unit_lorawan_set_retries e message_type retries s =
     (if message_type > 1 then (ESP_ERR_INVALID_ARG, s)
      else if retries < 1 \<or> retries > 15 then (ESP_ERR_INVALID_ARG, s)
      else
        (case unit_lorawan_send_at_command e
                (snprintf 32 (''CNBTRIALS='' @ dec (unat message_type) @ '','' @ dec (unat retries)))
                response_zero UNIT_LORAWAN_RESPONSE_TIMEOUT_MS s of
           (err, response, s1) \<Rightarrow> (err, s1)))"

definition unit_lorawan_set_tx_power :: "env \<Rightarrow> uint8 \<Rightarrow> st \<Rightarrow> esp_err \<times> st" where
  "unit_lorawan_set_tx_power e power_index s =
     (if power_index > 7 then (ESP_ERR_INVALID_ARG, s)
      else
        (case unit_lorawan_send_at_command e
                (snprintf 16 (''CTXP='' @ dec (unat power_index))) response_zero
                UNIT_LORAWAN_RESPONSE_TIMEOUT_MS s of
           (err, response, s1) \<Rightarrow> (err, s1)))"

definition unit_lorawan_link_check :: "env \<Rightarrow> uint8 \<Rightarrow> st \<Rightarrow> esp_err \<times> st" where
  "unit_lorawan_link_check e mode s =
     (if mode > 2 then (ESP_ERR_INVALID_ARG, s)
      else
        (case unit_lorawan_send_at_command e
                (snprintf 16 (''CLINKCHECK='' @ dec (unat mode))) response_zero
                (if mode = 1 then 30000 else UNIT_LORAWAN_RESPONSE_TIMEOUT_MS) s of
           (err, response, s1) \<Rightarrow> (err, s1)))"

subsection \<open>TTN orchestrator and join watcher\<close>

record unit_lorawan_ttn_config =
  dev_eui :: string
  app_eui :: string
  app_key :: string
  sub_band :: uint8
  data_rate :: uint8
  adr_enabled :: bool
  rx2_frequency :: uint32
  rx2_data_rate :: uint8
  join_timeout_sec :: uint16





text \<open>
  The join watcher. Calling the user's callback, creating the task, releasing the
  parameter block and deleting the task are recorded in the trace. The callback is
  user code: the model takes it to leave the driver and the transport alone.
\<close>

definition invoke_callback :: "join_monitor_params \<Rightarrow> bool \<Rightarrow> uint8 \<Rightarrow> st \<Rightarrow> st" where
  "invoke_callback p joined code s =
     s\<lparr>trace := trace s @ [JoinCallback (callback p) joined code (user_data p)]\<rparr>"


definition free_monitor_params :: "st \<Rightarrow> st" where
  "free_monitor_params s = s\<lparr>trace := trace s @ [FreeMonitorParams]\<rparr>"

definition vTaskDelete :: "st \<Rightarrow> st" where
  "vTaskDelete s = s\<lparr>trace := trace s @ [TaskDelete]\<rparr>"

function monitor_loop ::
  "env \<Rightarrow> join_monitor_params \<Rightarrow> nat \<Rightarrow> bool \<Rightarrow> st \<Rightarrow> bool \<times> st" where
  "monitor_loop e p elapsed_sec connected s =
     (if elapsed_sec < unat (timeout_sec p) then
        (let s1 = vTaskDelay 1000 s;
             elapsed_sec = elapsed_sec + 1
         in case unit_lorawan_connected e (Some connected) s1 of
              (check_err, state, s2) \<Rightarrow>
                (let connected = (case state of Some b \<Rightarrow> b | None \<Rightarrow> connected) in
                 if check_err = ESP_OK \<and> connected
                 then (connected, invoke_callback p True 0 s2)
                 else monitor_loop e p elapsed_sec connected s2))
      else (connected, s))"
  by pat_completeness auto
termination
  by (relation "measure (\<lambda>(e, p, elapsed_sec, connected, s). unat (timeout_sec p) - elapsed_sec)")
     auto

declare monitor_loop.simps [simp del]

definition ttn_join_monitor_task :: "env \<Rightarrow> join_monitor_params \<Rightarrow> st \<Rightarrow> st" where
  "ttn_join_monitor_task e monitor_params s =
     (case monitor_loop e monitor_params 0 False s of
        (connected, s1) \<Rightarrow>
          (let s2 = (if \<not> connected then invoke_callback monitor_params False 1 s1 else s1)
           in vTaskDelete (free_monitor_params s2)))"


section \<open>Vocabulary of the properties\<close>

text \<open>
  The definitions of this section are not part of the driver: they name what the
  theorems below speak about (the shape of a trace, the text of a reply, a reference
  decoder, concrete environments for the examples).
\<close>

text \<open>
  The events of a framed command: the three calls of the UART and the delays of the
  framer (50 ms between polls, 100 ms after a write, 500 ms before a retry).
\<close>

definition is_io :: "event \<Rightarrow> bool" where
  "is_io ev = (case ev of UartFlush \<Rightarrow> True | UartWrite b \<Rightarrow> True | UartRead \<Rightarrow> True
               | Delay d \<Rightarrow> d = 50 \<or> d = 100 \<or> d = 500 | _ \<Rightarrow> False)"

text \<open>
  \<open>io_only s s'\<close>: the state \<open>s'\<close> is reached from \<open>s\<close> by such events only, and
  the clock has not gone back.
\<close>

definition io_only :: "st \<Rightarrow> st \<Rightarrow> bool" where
  "io_only s s' = (\<exists>evs. trace s' = trace s @ evs \<and> list_all is_io evs \<and> now_ms s \<le> now_ms s')"

definition data_bearing :: "string \<Rightarrow> bool" where
  "data_bearing c =
     (contains c ''+CGMI='' \<or> contains c ''+CSTATUS:'' \<or> contains c ''+CDATARATE:'' \<or>
      contains c ''+CTXP:'' \<or> contains c ''+CRSSI:'' \<or> contains c ''+DTRX:'' \<or>
      contains c ''+CJOIN:'')"

definition scan_error_code :: "string \<Rightarrow> string" where
  "scan_error_code error_pos =
     (case scan_lit ''ERROR:'' error_pos of
        None \<Rightarrow> []
      | Some rest \<Rightarrow> (case scan_s 15 rest of None \<Rightarrow> [] | Some tok \<Rightarrow> tok))"

definition in_attempt :: "event \<Rightarrow> bool" where
  "in_attempt ev = (ev = Delay 100 \<or> ev = UartRead \<or> ev = Delay 50)"

fun retry_trace :: "string \<Rightarrow> event list list \<Rightarrow> event list" where
  "retry_trace frame [] = []"
| "retry_trace frame [es] = UartFlush # UartWrite frame # es"
| "retry_trace frame (es # es' # ess) =
     UartFlush # UartWrite frame # es @ Delay 500 # retry_trace frame (es' # ess)"

definition at_line :: "string \<Rightarrow> string" where
  "at_line cmd = ''AT+'' @ cmd @ [CHR 0x0D, CHR 0x0A]"

definition reply_of :: "env \<Rightarrow> lorawan_response \<Rightarrow> st \<Rightarrow> lorawan_response \<Rightarrow> bool" where
  "reply_of e r0 s' r =
     (\<exists>bs. bs \<noteq> [] \<and> uart_read_result e (n_reads s' - 1) = (ESP_OK, bs) \<and>
           (\<forall>sx. r = fst (snd (unit_lorawan_parse_response e bs r0 sx))))"

definition modem_replies :: "string \<Rightarrow> env" where
  "modem_replies reply =
     \<lparr>uart_write_result = (\<lambda>k. ESP_OK), uart_read_result = (\<lambda>k. (ESP_OK, reply)),
      malloc_ok = (\<lambda>k. True)\<rparr>"

definition st_init :: st where
  "st_init = \<lparr>n_writes = 0, n_reads = 0, n_mallocs = 0, now_ms = 0, trace = []\<rparr>"

definition writes_of :: "event list \<Rightarrow> string list" where
  "writes_of evs = concat (map (\<lambda>ev. case ev of UartWrite b \<Rightarrow> [b] | _ \<Rightarrow> []) evs)"

definition hex_val :: "char \<Rightarrow> nat option" where
  "hex_val c =
     (if c \<in> set ''0123456789'' then Some (of_char c - 48)
      else if c \<in> set ''ABCDEF'' then Some (of_char c - 55)
      else None)"

fun spec_hex_decode :: "string \<Rightarrow> string option" where
  "spec_hex_decode [] = Some []"
| "spec_hex_decode [h] = None"
| "spec_hex_decode (h # l # rest) =
     (case (hex_val h, hex_val l, spec_hex_decode rest) of
        (Some a, Some b, Some bs) \<Rightarrow> Some (char_of (16 * a + b) # bs)
      | _ \<Rightarrow> None)"



text \<open>The events of the join watcher before its callback: those of the connected-checks
  and the one-second delays between them.\<close>

definition is_poll :: "event \<Rightarrow> bool" where
  "is_poll ev = (is_io ev \<or> ev = Delay 1000)"






section \<open>Auxiliary lemmas\<close>

lemmas io_defs = core2foraws_expports_uart_read_flush_def core2foraws_expports_uart_write_def
  core2foraws_expports_uart_read_def vTaskDelay_def malloc_def

lemma io_only_refl: "io_only s s"
  by (simp add: io_only_def)

lemma io_only_trans: "io_only s s1 \<Longrightarrow> io_only s1 s2 \<Longrightarrow> io_only s s2"
  by (auto simp: io_only_def)

lemma io_only_flush: "io_only s (core2foraws_expports_uart_read_flush s)"
  by (simp add: io_only_def io_defs is_io_def)

lemma io_only_write: "io_only s (snd (core2foraws_expports_uart_write e b s))"
  by (simp add: io_only_def io_defs is_io_def)

lemma io_only_read: "io_only s (snd (snd (core2foraws_expports_uart_read e s)))"
  by (simp add: io_only_def io_defs is_io_def)

lemma io_only_delay: "ms = 50 \<or> ms = 100 \<or> ms = 500 \<Longrightarrow> io_only s (vTaskDelay ms s)"
  by (auto simp: io_only_def io_defs is_io_def)

lemma io_only_malloc: "io_only s (snd (malloc e s))"
  by (simp add: io_only_def io_defs)

lemma io_only_wait_loop: "io_only s (snd (snd (wait_loop e start t s)))"
proof (induction e start t s rule: wait_loop.induct)
  case (1 e start t s)
  show ?case
  proof (cases "now_ms s - start < t")
    case False
    then show ?thesis by (simp add: wait_loop.simps[of e start t s] io_only_refl)
  next
    case True
    obtain err b s1 where r: "core2foraws_expports_uart_read e s = (err, b, s1)"
      by (cases "core2foraws_expports_uart_read e s") auto
    have s1: "io_only s s1" using io_only_read[of s e] r by simp
    show ?thesis
    proof (cases "err = ESP_OK \<and> length b > 0")
      case True
      with \<open>now_ms s - start < t\<close> r s1 show ?thesis by (simp add: wait_loop.simps[of e start t s])
    next
      case False
      have "io_only (vTaskDelay 50 s1) (snd (snd (wait_loop e start t (vTaskDelay 50 s1))))"
        using "1.IH"[OF \<open>now_ms s - start < t\<close> r[symmetric] refl False] .
      then have "io_only s (snd (snd (wait_loop e start t (vTaskDelay 50 s1))))"
        using s1 io_only_delay[of 50] io_only_trans by blast
      with \<open>now_ms s - start < t\<close> r False show ?thesis by (auto simp: wait_loop.simps[of e start t s])
    qed
  qed
qed

lemma parse_eq:
  "raw \<noteq> [] \<Longrightarrow>
   unit_lorawan_parse_response e raw p s =
     (if contains (cstr raw) ''OK'' then
        (if data_bearing (cstr raw)
         then (ESP_OK, \<lparr>success = True,
                        response_data = (if malloc_ok e (n_mallocs s) then Some raw else None),
                        data_length = length raw, error_code = []\<rparr>,
               s\<lparr>n_mallocs := Suc (n_mallocs s)\<rparr>)
         else (ESP_OK, \<lparr>success = True, response_data = None, data_length = 0, error_code = []\<rparr>, s))
      else
        (case strstr (cstr raw) ''ERROR'' of
           Some error_pos \<Rightarrow>
             (ESP_OK, \<lparr>success = False, response_data = None, data_length = 0,
                       error_code = scan_error_code error_pos\<rparr>, s)
         | None \<Rightarrow>
             if data_bearing (cstr raw)
             then (ESP_OK, \<lparr>success = True,
                            response_data = (if malloc_ok e (n_mallocs s) then Some raw else None),
                            data_length = length raw, error_code = []\<rparr>,
                   s\<lparr>n_mallocs := Suc (n_mallocs s)\<rparr>)
             else (ESP_OK, \<lparr>success = False, response_data = None, data_length = 0,
                           error_code = []\<rparr>, s)))"
proof -
  have eq1: "(contains (cstr raw) ''+CGMI='' \<or> contains (cstr raw) ''+CSTATUS:'' \<or>
              contains (cstr raw) ''+CDATARATE:'' \<or> contains (cstr raw) ''+CTXP:'' \<or>
              contains (cstr raw) ''+CRSSI:'' \<or> contains (cstr raw) ''+DTRX:'' \<or>
              contains (cstr raw) ''+CJOIN:'') = data_bearing (cstr raw)"
    by (simp only: data_bearing_def)
  have eq2: "(contains (cstr raw) ''+CSTATUS:'' \<or> contains (cstr raw) ''+CGMI='' \<or>
              contains (cstr raw) ''+CDATARATE:'' \<or> contains (cstr raw) ''+CTXP:'' \<or>
              contains (cstr raw) ''+CRSSI:'' \<or> contains (cstr raw) ''+DTRX:'' \<or>
              contains (cstr raw) ''+CJOIN:'') = data_bearing (cstr raw)"
    unfolding data_bearing_def by blast
  assume "raw \<noteq> []"
  then show ?thesis
    unfolding unit_lorawan_parse_response_def Let_def eq1 eq2
    by (simp add: malloc_def scan_error_code_def split: option.split)
qed

lemma parse_empty: "unit_lorawan_parse_response e [] p s = (ESP_ERR_INVALID_ARG, p, s)"
  by (simp add: unit_lorawan_parse_response_def)

lemma parse_state:
  "snd (snd (unit_lorawan_parse_response e raw p s)) = s \<or>
   snd (snd (unit_lorawan_parse_response e raw p s)) = s\<lparr>n_mallocs := Suc (n_mallocs s)\<rparr>"
  by (cases "raw = []") (simp_all add: parse_empty parse_eq split: option.split)

lemma io_only_parse: "io_only s (snd (snd (unit_lorawan_parse_response e raw p s)))"
  using parse_state[of e raw p s] by (auto simp: io_only_def)

lemma parse_nonempty_ok: "raw \<noteq> [] \<Longrightarrow> fst (unit_lorawan_parse_response e raw p s) = ESP_OK"
  by (simp add: parse_eq split: option.split)

lemma parse_malloc_indep:
  "malloc_ok e (n_mallocs s) \<Longrightarrow> malloc_ok e (n_mallocs s2) \<Longrightarrow>
   fst (snd (unit_lorawan_parse_response e raw p s)) = fst (snd (unit_lorawan_parse_response e raw p s2))"
  by (cases "raw = []") (simp_all add: parse_empty parse_eq split: option.split)

lemma io_only_attempt: "io_only s (snd (snd (snd (attempt e at t k r s))))"
proof -
  let ?s1 = "if k > 0 then vTaskDelay 500 s else s"
  let ?s2 = "core2foraws_expports_uart_read_flush ?s1"
  obtain err s3 where w: "core2foraws_expports_uart_write e (take (strlen at) at) ?s2 = (err, s3)"
    by (cases "core2foraws_expports_uart_write e (take (strlen at) at) ?s2") auto
  have a1: "io_only s ?s1" by (simp add: io_only_refl io_only_delay)
  have a2: "io_only s ?s2" using a1 io_only_flush io_only_trans by blast
  have a3: "io_only s s3" using a2 io_only_write[of ?s2 e "take (strlen at) at"] w io_only_trans by fastforce
  let ?s4 = "vTaskDelay UNIT_LORAWAN_COMMAND_DELAY_MS s3"
  have d4: "io_only s3 ?s4"
    by (rule io_only_delay) (simp add: UNIT_LORAWAN_COMMAND_DELAY_MS_def)
  have a4: "io_only s ?s4" using a3 d4 by (rule io_only_trans)
  obtain ok s5 where m: "malloc e ?s4 = (ok, s5)" by (cases "malloc e ?s4") auto
  have a5: "io_only s s5" using a4 io_only_malloc[of ?s4 e] m io_only_trans by fastforce
  obtain err2 buf s6 where wt: "unit_lorawan_wait_for_response e t s5 = (err2, buf, s6)"
    by (cases "unit_lorawan_wait_for_response e t s5") auto
  have a6: "io_only s s6"
    using a5 io_only_wait_loop[of s5 e "now_ms s5" t] wt io_only_trans
    by (fastforce simp: unit_lorawan_wait_for_response_def)
  have a7: "io_only s (snd (snd (unit_lorawan_parse_response e buf r s6)))"
    using a6 io_only_parse io_only_trans by blast
  show ?thesis
    using w m wt a3 a5 a6 a7
    by (auto simp: attempt_def Let_def split: prod.splits)
qed

lemma io_only_send_loop: "io_only s (snd (snd (send_loop e at t k err r s)))"
proof (induction e at t k err r s rule: send_loop.induct)
  case (1 e at t k err r s)
  show ?case
  proof (cases "k < UNIT_LORAWAN_MAX_RETRIES")
    case False
    then show ?thesis by (simp add: send_loop.simps[of e at t k] io_only_refl)
  next
    case True
    obtain err1 ctl r1 s1 where a: "attempt e at t k r s = (err1, ctl, r1, s1)"
      by (cases "attempt e at t k r s") auto
    have s1: "io_only s s1" using io_only_attempt[of s e at t k r] a by simp
    show ?thesis
    proof (cases "ctl = Break")
      case True
      with \<open>k < UNIT_LORAWAN_MAX_RETRIES\<close> a s1 show ?thesis by (simp add: send_loop.simps[of e at t k])
    next
      case False
      have "io_only s1 (snd (snd (send_loop e at t (k + 1) err1 r1 s1)))"
        using "1.IH"[OF \<open>k < UNIT_LORAWAN_MAX_RETRIES\<close> a[symmetric] refl refl False] .
      with s1 have "io_only s (snd (snd (send_loop e at t (k + 1) err1 r1 s1)))"
        using io_only_trans by blast
      with \<open>k < UNIT_LORAWAN_MAX_RETRIES\<close> a False show ?thesis by (simp add: send_loop.simps[of e at t k])
    qed
  qed
qed

lemma io_only_framer: "io_only s (snd (snd (unit_lorawan_send_at_command e cmd r t s)))"
proof -
  obtain ok s1 where m: "malloc e s = (ok, s1)" by (cases "malloc e s") auto
  have a: "io_only s s1" using io_only_malloc[of s e] m by simp
  show ?thesis
    using m a io_only_send_loop io_only_trans
    by (auto simp: unit_lorawan_send_at_command_def Let_def)
qed

lemma wait_loop_facts:
  "wait_loop e start t s = (err, bs, s') \<Longrightarrow>
     n_mallocs s' = n_mallocs s \<and> n_writes s' = n_writes s \<and>
     (\<exists>es. trace s' = trace s @ es \<and> list_all in_attempt es) \<and>
     ((err = ESP_OK \<and> bs \<noteq> [] \<and> n_reads s < n_reads s' \<and>
       uart_read_result e (n_reads s' - 1) = (ESP_OK, bs)) \<or>
      (err = ESP_ERR_TIMEOUT \<and> bs = []))"
proof (induction e start t s arbitrary: err bs s' rule: wait_loop.induct)
  case (1 e start t s)
  show ?case
  proof (cases "now_ms s - start < t")
    case False
    with "1.prems" show ?thesis by (simp add: wait_loop.simps[of e start t s])
  next
    case True
    obtain err1 b s1 where r: "core2foraws_expports_uart_read e s = (err1, b, s1)"
      by (cases "core2foraws_expports_uart_read e s") auto
    then have rd: "err1 = fst (uart_read_result e (n_reads s))" "b = snd (uart_read_result e (n_reads s))"
      "s1 = s\<lparr>n_reads := Suc (n_reads s), trace := trace s @ [UartRead]\<rparr>"
      by (auto simp: core2foraws_expports_uart_read_def)
    show ?thesis
    proof (cases "err1 = ESP_OK \<and> length b > 0")
      case True
      with \<open>now_ms s - start < t\<close> r "1.prems" have "err = ESP_OK" "bs = b" "s' = s1"
        by (simp_all add: wait_loop.simps[of e start t s])
      with True rd show ?thesis by (auto simp: in_attempt_def prod_eq_iff)
    next
      case False
      with \<open>now_ms s - start < t\<close> r "1.prems"
      have w: "wait_loop e start t (vTaskDelay 50 s1) = (err, bs, s')"
        by (auto simp: wait_loop.simps[of e start t s])
      note ih = "1.IH"[OF \<open>now_ms s - start < t\<close> r[symmetric] refl False w]
      from ih obtain es where es0: "trace s' = trace (vTaskDelay 50 s1) @ es" "list_all in_attempt es"
        by blast
      have "trace s' = trace s @ (UartRead # Delay 50 # es)" using es0 rd by (simp add: vTaskDelay_def)
      moreover have "list_all in_attempt (UartRead # Delay 50 # es)" using es0 by (simp add: in_attempt_def)
      ultimately have sh: "\<exists>es. trace s' = trace s @ es \<and> list_all in_attempt es" by blast
      from ih rd sh show ?thesis by (auto simp: vTaskDelay_def)
    qed
  qed
qed

lemma attempt_facts:
  assumes mall: "\<forall>k. malloc_ok e k"
    and a: "attempt e at t k r0 s = (err, ctl, r, s')"
  shows "(\<exists>es. trace s' = trace s @ (if k > 0 then [Delay 500] else []) @
                  UartFlush # UartWrite (take (strlen at) at) # es \<and> list_all in_attempt es) \<and>
         (ctl = Break) = (err = ESP_OK) \<and> n_writes s' = Suc (n_writes s) \<and>
         (err \<noteq> ESP_OK \<longrightarrow> r = r0 \<and> (err = uart_write_result e (n_writes s) \<or> err = ESP_ERR_TIMEOUT)) \<and>
         (err = ESP_OK \<longrightarrow>
            (\<exists>bs. bs \<noteq> [] \<and> uart_read_result e (n_reads s' - 1) = (ESP_OK, bs) \<and>
                  (\<forall>sx. r = fst (snd (unit_lorawan_parse_response e bs r0 sx)))))"
proof -
  let ?s1 = "if k > 0 then vTaskDelay 500 s else s"
  let ?s2 = "core2foraws_expports_uart_read_flush ?s1"
  let ?w = "take (strlen at) at"
  let ?pre = "trace s @ (if k > 0 then [Delay 500] else []) @ [UartFlush, UartWrite ?w]"
  obtain werr s3 where w: "core2foraws_expports_uart_write e ?w ?s2 = (werr, s3)"
    by (cases "core2foraws_expports_uart_write e ?w ?s2") auto
  then have werr: "werr = uart_write_result e (n_writes s)" and t3: "trace s3 = ?pre"
    and w3: "n_writes s3 = Suc (n_writes s)"
    by (auto simp: io_defs)
  show ?thesis
  proof (cases "werr = ESP_OK")
    case False
    with a w have "err = werr" "ctl = Continue" "r = r0" "s' = s3"
      by (simp_all add: attempt_def Let_def)
    with False werr t3 w3 show ?thesis by (auto simp: in_attempt_def)
  next
    case True
    let ?s4 = "vTaskDelay UNIT_LORAWAN_COMMAND_DELAY_MS s3"
    let ?s5 = "?s4\<lparr>n_mallocs := Suc (n_mallocs ?s4)\<rparr>"
    have m: "malloc e ?s4 = (True, ?s5)" using mall by (simp add: malloc_def)
    have t5: "trace ?s5 = ?pre @ [Delay 100]"
      using t3 by (simp add: vTaskDelay_def UNIT_LORAWAN_COMMAND_DELAY_MS_def)
    obtain err2 buf s6 where wt: "wait_loop e (now_ms ?s5) t ?s5 = (err2, buf, s6)"
      by (cases "wait_loop e (now_ms ?s5) t ?s5") auto
    note wf = wait_loop_facts[OF wt]
    from wf obtain es where es: "trace s6 = trace ?s5 @ es" "list_all in_attempt es" by blast
    have t6: "trace s6 = ?pre @ (Delay 100 # es)" using es t5 by simp
    have w6: "n_writes s6 = Suc (n_writes s)" using wf w3 by (simp add: vTaskDelay_def)
    have l6: "list_all in_attempt (Delay 100 # es)" using es by (simp add: in_attempt_def)
    show ?thesis
    proof (cases "err2 = ESP_OK")
      case False
      with a w True m wt have "err = err2" "ctl = Continue" "r = r0" "s' = s6"
        by (simp_all add: attempt_def Let_def unit_lorawan_wait_for_response_def)
      moreover from wf False have "err2 = ESP_ERR_TIMEOUT" by auto
      ultimately show ?thesis using False t6 l6 w6 by auto
    next
      case ok: True
      with wf have buf: "buf \<noteq> []" "uart_read_result e (n_reads s6 - 1) = (ESP_OK, buf)" by auto
      obtain perr pr s7 where p: "unit_lorawan_parse_response e buf r0 s6 = (perr, pr, s7)"
        by (cases "unit_lorawan_parse_response e buf r0 s6") auto
      have perr: "perr = ESP_OK" using parse_nonempty_ok[OF buf(1), of e r0 s6] p by simp
      have s7: "trace s7 = trace s6" "n_reads s7 = n_reads s6" "n_writes s7 = n_writes s6"
        using parse_state[of e buf r0 s6] p by auto
      have indep: "\<forall>sx. pr = fst (snd (unit_lorawan_parse_response e buf r0 sx))"
        using parse_malloc_indep[of e s6 _ buf r0] mall p by auto
      from a w True m wt ok p perr have "err = ESP_OK" "ctl = Break" "r = pr" "s' = s7"
        by (simp_all add: attempt_def Let_def unit_lorawan_wait_for_response_def)
      with buf s7 indep t6 l6 w6 show ?thesis by auto
    qed
  qed
qed

lemma send_loop_end: "send_loop e at t 3 err r s = (err, r, s)"
  by (simp add: send_loop.simps[of e at t 3] UNIT_LORAWAN_MAX_RETRIES_def)

lemma send_loop_step:
  "k < 3 \<Longrightarrow>
   send_loop e at t k err r s =
     (case attempt e at t k r s of
        (err1, ctl, r1, s1) \<Rightarrow>
          if ctl = Break then (err1, r1, s1) else send_loop e at t (Suc k) err1 r1 s1)"
  by (simp add: send_loop.simps[of e at t k] UNIT_LORAWAN_MAX_RETRIES_def split: prod.splits)

lemma at_frame:
  "CHR 0x00 \<notin> set cmd \<Longrightarrow>
   take (strlen (snprintf (length cmd + 6) (at_line cmd))) (snprintf (length cmd + 6) (at_line cmd))
   = at_line cmd"
proof -
  assume n: "CHR 0x00 \<notin> set cmd"
  have a: "snprintf (length cmd + 6) (at_line cmd) = at_line cmd"
    by (simp add: snprintf_def at_line_def)
  have "cstr (at_line cmd) = at_line cmd"
    unfolding cstr_def at_line_def using n by (intro takeWhile_eq_all_conv[THEN iffD2]) auto
  then show ?thesis unfolding a strlen_def by simp
qed

lemma framer_unfold:
  "malloc_ok e (n_mallocs s) \<Longrightarrow>
   unit_lorawan_send_at_command e cmd r0 t s =
     send_loop e (snprintf (length cmd + 6) (at_line cmd)) t 0 ESP_FAIL r0
       (s\<lparr>n_mallocs := Suc (n_mallocs s)\<rparr>)"
  by (simp add: unit_lorawan_send_at_command_def malloc_def Let_def at_line_def)

lemma send_loop_facts:
  assumes mall: "\<forall>k. malloc_ok e k"
    and f: "send_loop e at t 0 err0 r0 s = (err, r, s')"
  shows "\<exists>tails. 1 \<le> length tails \<and> length tails \<le> 3 \<and> list_all (list_all in_attempt) tails \<and>
           trace s' = trace s @ retry_trace (take (strlen at) at) tails \<and>
           (err \<noteq> ESP_OK \<longrightarrow> length tails = 3 \<and> r = r0 \<and>
              (err = uart_write_result e (n_writes s + 2) \<or> err = ESP_ERR_TIMEOUT)) \<and>
           (err = ESP_OK \<longrightarrow> reply_of e r0 s' r)"
proof -
  let ?w = "take (strlen at) at"
  obtain e1 c1 r1 s1 where a1: "attempt e at t 0 r0 s = (e1, c1, r1, s1)"
    by (cases "attempt e at t 0 r0 s") auto
  note f1 = attempt_facts[OF mall a1]
  from f1 obtain es1 where es1: "trace s1 = trace s @ UartFlush # UartWrite ?w # es1" "list_all in_attempt es1"
    by auto
  show ?thesis
  proof (cases "c1 = Break")
    case True
    with f a1 have "err = e1" "r = r1" "s' = s1" by (simp_all add: send_loop_step)
    with f1 True es1 show ?thesis
      by (intro exI[of _ "[es1]"]) (auto simp: reply_of_def)
  next
    case n1: False
    with f1 have r1: "r1 = r0" by auto
    obtain e2 c2 r2 s2 where a2: "attempt e at t (Suc 0) r0 s1 = (e2, c2, r2, s2)"
      by (cases "attempt e at t (Suc 0) r0 s1") auto
    note f2 = attempt_facts[OF mall a2]
    from f2 obtain es2 where es2: "trace s2 = trace s1 @ Delay 500 # UartFlush # UartWrite ?w # es2"
        "list_all in_attempt es2"
      by auto
    have t2: "trace s2 = trace s @ retry_trace ?w [es1, es2]" using es1 es2 by simp
    show ?thesis
    proof (cases "c2 = Break")
      case True
      with f a1 a2 n1 r1 have "err = e2" "r = r2" "s' = s2" by (simp_all add: send_loop_step)
      with f2 True es1 es2 t2 show ?thesis
        by (intro exI[of _ "[es1, es2]"]) (auto simp: reply_of_def)
    next
      case n2: False
      with f2 have r2: "r2 = r0" by auto
      obtain e3 c3 r3 s3 where a3: "attempt e at t (Suc (Suc 0)) r0 s2 = (e3, c3, r3, s3)"
        by (cases "attempt e at t (Suc (Suc 0)) r0 s2") auto
      note f3 = attempt_facts[OF mall a3]
      from f3 obtain es3 where es3: "trace s3 = trace s2 @ Delay 500 # UartFlush # UartWrite ?w # es3"
          "list_all in_attempt es3"
        by auto
      have t3: "trace s3 = trace s @ retry_trace ?w [es1, es2, es3]" using t2 es3 by simp
      have "send_loop e at t (Suc (Suc (Suc 0))) e3 r3 s3 = (e3, r3, s3)"
        using send_loop_end[of e at t e3 r3 s3] by (simp add: numeral_3_eq_3)
      with f a1 a2 a3 n1 n2 r1 r2 have "err = e3" "r = r3" "s' = s3"
        by (simp_all add: send_loop_step split: if_splits)
      moreover have "n_writes s2 = n_writes s + 2" using f1 f2 by simp
      ultimately show ?thesis using f3 es1 es2 es3 t3
        by (intro exI[of _ "[es1, es2, es3]"]) (auto simp: reply_of_def)
    qed
  qed
qed

lemma framer_facts:
  assumes mall: "\<forall>k. malloc_ok e k"
    and nonul: "CHR 0x00 \<notin> set cmd"
    and f: "unit_lorawan_send_at_command e cmd r0 t s = (err, r, s')"
  shows "\<exists>tails. 1 \<le> length tails \<and> length tails \<le> 3 \<and> list_all (list_all in_attempt) tails \<and>
           trace s' = trace s @ retry_trace (at_line cmd) tails \<and>
           (err \<noteq> ESP_OK \<longrightarrow> length tails = 3 \<and> r = r0 \<and>
              (err = uart_write_result e (n_writes s + 2) \<or> err = ESP_ERR_TIMEOUT)) \<and>
           (err = ESP_OK \<longrightarrow> reply_of e r0 s' r)"
proof -
  have "send_loop e (snprintf (length cmd + 6) (at_line cmd)) t 0 ESP_FAIL r0
          (s\<lparr>n_mallocs := Suc (n_mallocs s)\<rparr>) = (err, r, s')"
    using f mall by (simp add: framer_unfold)
  from send_loop_facts[OF mall this] show ?thesis
    unfolding at_frame[OF nonul] by simp
qed

lemma retry_trace_start:
  "1 \<le> length tails \<Longrightarrow> \<exists>rest. retry_trace f tails = UartFlush # UartWrite f # rest"
  by (cases "(f, tails)" rule: retry_trace.cases) auto



lemmas str_defs = cstr_def strlen_def contains_def snprintf_def scan_lit_def scan_s_def isspace_def

lemmas const_defs = UNIT_LORAWAN_RESPONSE_TIMEOUT_MS_def UNIT_LORAWAN_COMMAND_DELAY_MS_def UNIT_LORAWAN_MAX_RETRIES_def



lemma log_cmd_5: "snprintf 32 (''ILOGLVL='' @ dec (unat (5::uint8))) = ''ILOGLVL=5''"
  by (simp add: dec.simps digit_char_def snprintf_def)

lemma log_clamped:
  "level > 5 \<Longrightarrow>
   unit_lorawan_log e level s =
     (case unit_lorawan_send_at_command e ''ILOGLVL=5'' response_zero
             UNIT_LORAWAN_RESPONSE_TIMEOUT_MS s of (err, response, s1) \<Rightarrow> (err, s1))"
proof -
  assume "level > 5"
  then have l: "(if level > UNIT_LORAWAN_LOG_LEVEL_MAX then UNIT_LORAWAN_LOG_LEVEL_MAX else level) = 5"
    by (simp add: UNIT_LORAWAN_LOG_LEVEL_MAX_def)
  show ?thesis unfolding unit_lorawan_log_def Let_def l log_cmd_5 ..
qed

lemma log_5:
  "unit_lorawan_log e 5 s =
     (case unit_lorawan_send_at_command e ''ILOGLVL=5'' response_zero
             UNIT_LORAWAN_RESPONSE_TIMEOUT_MS s of (err, response, s1) \<Rightarrow> (err, s1))"
proof -
  have l: "(if (5::uint8) > UNIT_LORAWAN_LOG_LEVEL_MAX then UNIT_LORAWAN_LOG_LEVEL_MAX else 5) = 5"
    by (simp add: UNIT_LORAWAN_LOG_LEVEL_MAX_def)
  show ?thesis unfolding unit_lorawan_log_def Let_def l log_cmd_5 ..
qed

text \<open>
  Claim C10. \<open>unit_lorawan_log\<close> with a level above 5 behaves exactly as with
  level 5: the level is clamped, the command \<open>ILOGLVL=5\<close> goes through the framer
  (when its buffers can be allocated, the UART is flushed and \<open>AT+ILOGLVL=5\<close> is
  written), and the call is not rejected with \<open>ESP_ERR_INVALID_ARG\<close> before any I/O
  as the range-validated operations are.
\<close>

theorem C10_log_level_clamped:
  assumes "level > 5" and "\<forall>k. malloc_ok e k"
  shows "unit_lorawan_log e level s = unit_lorawan_log e 5 s \<and>
         unit_lorawan_log e level s =
           (case unit_lorawan_send_at_command e ''ILOGLVL=5'' response_zero
                   UNIT_LORAWAN_RESPONSE_TIMEOUT_MS s of (err, response, s1) \<Rightarrow> (err, s1)) \<and>
         (\<exists>rest. trace (snd (unit_lorawan_log e level s)) =
                  trace s @ UartFlush # UartWrite (at_line ''ILOGLVL=5'') # rest) \<and>
         unit_lorawan_log e level s \<noteq> (ESP_ERR_INVALID_ARG, s)"
proof -
  note eq = log_clamped[OF assms(1), of e s]
  note eq5 = log_5[of e s]
  obtain err r s1 where f: "unit_lorawan_send_at_command e ''ILOGLVL=5'' response_zero
                   UNIT_LORAWAN_RESPONSE_TIMEOUT_MS s = (err, r, s1)"
    by (cases "unit_lorawan_send_at_command e ''ILOGLVL=5'' response_zero
                   UNIT_LORAWAN_RESPONSE_TIMEOUT_MS s") auto
  have "CHR 0x00 \<notin> set ''ILOGLVL=5''" by simp
  from framer_facts[OF assms(2) this f] obtain tails where
    t: "1 \<le> length tails" "trace s1 = trace s @ retry_trace (at_line ''ILOGLVL=5'') tails"
    by blast
  from retry_trace_start[OF t(1)] t(2) obtain rest where
    r: "trace s1 = trace s @ UartFlush # UartWrite (at_line ''ILOGLVL=5'') # rest"
    by metis
  then have "s1 \<noteq> s" by auto
  with eq eq5 f r show ?thesis by simp
qed

lemmas eval_defs = unit_lorawan_send_at_command_def send_loop.simps attempt_def
  unit_lorawan_wait_for_response_def wait_loop.simps unit_lorawan_parse_response_def
  io_defs str_defs const_defs modem_replies_def st_init_def response_zero_def at_line_def

theorem C10_witness:
  "(9::uint8) > 5 \<and> (\<forall>k. malloc_ok (modem_replies ''OK'') k) \<and>
   unit_lorawan_log (modem_replies ''OK'') 9 st_init = unit_lorawan_log (modem_replies ''OK'') 5 st_init \<and>
   unit_lorawan_log (modem_replies ''OK'') 9 st_init =
     (ESP_OK, \<lparr>n_writes = 1, n_reads = 1, n_mallocs = 2, now_ms = 100,
               trace = [UartFlush, UartWrite (at_line ''ILOGLVL=5''), Delay 100, UartRead]\<rparr>)"
proof -
  have m: "\<forall>k. malloc_ok (modem_replies ''OK'') k" by (simp add: modem_replies_def)
  have g: "(9::uint8) > 5" by simp
  have c: "unit_lorawan_log (modem_replies ''OK'') 9 st_init = unit_lorawan_log (modem_replies ''OK'') 5 st_init"
    using C10_log_level_clamped[OF g m, of st_init] by blast
  have v: "unit_lorawan_log (modem_replies ''OK'') 5 st_init =
     (ESP_OK, \<lparr>n_writes = 1, n_reads = 1, n_mallocs = 2, now_ms = 100,
               trace = [UartFlush, UartWrite (at_line ''ILOGLVL=5''), Delay 100, UartRead]\<rparr>)"
    unfolding log_5 by (simp add: eval_defs)
  from g m c v show ?thesis by simp
qed

lemma uint8_le_4_cases: "(dr::uint8) \<le> 4 \<Longrightarrow> dr = 0 \<or> dr = 1 \<or> dr = 2 \<or> dr = 3 \<or> dr = 4"
proof -
  assume "dr \<le> 4"
  then have "unat dr \<le> 4" by (simp add: word_le_nat_alt)
  then have "unat dr = 0 \<or> unat dr = 1 \<or> unat dr = 2 \<or> unat dr = 3 \<or> unat dr = 4"
    by linarith
  then show ?thesis by (simp add: word_unat_eq_iff)
qed

lemma unat_of_char8: "unat (of_char c :: uint8) = of_char c"
proof -
  have "(of_char c :: uint8) = of_nat (of_char c)" by (simp add: of_nat_of_char)
  then have "unat (of_char c :: uint8) = (of_char c :: nat) mod 256" by (simp add: unat_of_nat)
  then show ?thesis by simp
qed

lemma hex_encode_length: "length (hex_encode m) = 2 * length m"
  by (induction m) (simp_all add: hex_encode_def snprintf_def fmt_02X_def)

lemma lt16_cases: "d < 16 \<Longrightarrow> d \<in> {0,1,2,3,4,5,6,7,8,9,10,11,12,13,14,15::nat}"
  by simp arith

lemma hex_val_hex_digit: "d < 16 \<Longrightarrow> hex_val (hex_digit d) = Some d"
  using lt16_cases[of d] by (auto simp: hex_val_def hex_digit_def)

lemma hex_digit_upper: "d < 16 \<Longrightarrow> hex_digit d \<in> set ''0123456789ABCDEF''"
  using lt16_cases[of d] by (auto simp: hex_digit_def)

lemma hex_encode_Cons:
  "hex_encode (c # m) = hex_digit (of_char c div 16) # hex_digit (of_char c mod 16) # hex_encode m"
  by (simp add: hex_encode_def snprintf_def fmt_02X_def unat_of_char8)

lemma hex_encode_Nil: "hex_encode [] = []"
  by (simp add: hex_encode_def)

lemma of_char_div16: "(of_char c :: nat) div 16 < 16"
  using nat_of_char_less_256[of c] by arith

lemma decode_encode: "spec_hex_decode (hex_encode m) = Some m"
proof (induction m)
  case Nil show ?case by (simp add: hex_encode_Nil)
next
  case (Cons c m)
  have "char_of (16 * ((of_char c :: nat) div 16) + of_char c mod 16) = c" by simp
  with Cons show ?case
    by (simp add: hex_encode_Cons hex_val_hex_digit of_char_div16)
qed

lemma hex_encode_chars: "set (hex_encode m) \<subseteq> set ''0123456789ABCDEF''"
proof (induction m)
  case Nil show ?case by (simp add: hex_encode_Nil)
next
  case (Cons c m)
  have a: "hex_digit (of_char c div 16) \<in> set ''0123456789ABCDEF''" by (rule hex_digit_upper) (rule of_char_div16)
  have b: "hex_digit (of_char c mod 16) \<in> set ''0123456789ABCDEF''" by (rule hex_digit_upper) simp
  from Cons a b show ?case unfolding hex_encode_Cons by (metis insert_subset list.simps(15))
qed

lemma hex_encode_inj: "inj hex_encode"
  by (rule inj_on_inverseI[where g = "\<lambda>h. the (spec_hex_decode h)"]) (simp add: decode_encode)

lemmas payload_consts = UNIT_LORAWAN_US915_MAX_PAYLOAD_DR0_def UNIT_LORAWAN_US915_MAX_PAYLOAD_DR1_def
  UNIT_LORAWAN_US915_MAX_PAYLOAD_DR2_def UNIT_LORAWAN_US915_MAX_PAYLOAD_DR3_def
  UNIT_LORAWAN_US915_MAX_PAYLOAD_DR4_def

text \<open>
  Claim C5. The table of payload ceilings indexed by the data rates 0 to 4 is
  11, 53, 125, 242, 242 bytes and never decreases; for each of these data rates a
  payload of exactly the ceiling passes \<open>_unit_lorawan_validate_payload_size\<close> and a
  payload one byte longer is refused with \<open>ESP_ERR_INVALID_SIZE\<close>.
\<close>

theorem C5_payload_ceiling_table:
  "us915_max_payload_sizes = [11, 53, 125, 242, 242] \<and>
   sorted us915_max_payload_sizes \<and>
   (\<forall>dr::uint8. dr \<le> 4 \<longrightarrow>
      unit_lorawan_validate_payload_size (us915_max_payload_sizes ! unat dr) dr = ESP_OK \<and>
      unit_lorawan_validate_payload_size (us915_max_payload_sizes ! unat dr + 1) dr
        = ESP_ERR_INVALID_SIZE)"
proof (intro conjI allI impI)
  show "us915_max_payload_sizes = [11, 53, 125, 242, 242]"
    by (simp add: us915_max_payload_sizes_def payload_consts)
  show "sorted us915_max_payload_sizes"
    by (simp add: us915_max_payload_sizes_def payload_consts)
next
  fix dr :: uint8 assume "dr \<le> 4"
  then have c: "dr = 0 \<or> dr = 1 \<or> dr = 2 \<or> dr = 3 \<or> dr = 4" by (rule uint8_le_4_cases)
  from c show "unit_lorawan_validate_payload_size (us915_max_payload_sizes ! unat dr) dr = ESP_OK"
    by (auto simp: unit_lorawan_validate_payload_size_def us915_max_payload_sizes_def payload_consts)
  from c show "unit_lorawan_validate_payload_size (us915_max_payload_sizes ! unat dr + 1) dr
                 = ESP_ERR_INVALID_SIZE"
    by (auto simp: unit_lorawan_validate_payload_size_def us915_max_payload_sizes_def payload_consts)
qed

theorem C5_payload_ceiling_table_witness:
  "(3::uint8) \<le> 4 \<and> us915_max_payload_sizes ! unat (3::uint8) = 242 \<and>
   unit_lorawan_validate_payload_size 242 3 = ESP_OK \<and>
   unit_lorawan_validate_payload_size 243 3 = ESP_ERR_INVALID_SIZE"
proof -
  have h: "(3::uint8) \<le> 4" by simp
  have v: "us915_max_payload_sizes ! unat (3::uint8) = 242"
    by (simp add: us915_max_payload_sizes_def payload_consts)
  from C5_payload_ceiling_table have
    "unit_lorawan_validate_payload_size (us915_max_payload_sizes ! unat (3::uint8)) 3 = ESP_OK \<and>
     unit_lorawan_validate_payload_size (us915_max_payload_sizes ! unat (3::uint8) + 1) 3
       = ESP_ERR_INVALID_SIZE"
    using h by blast
  with h v show ?thesis by simp
qed

text \<open>
  Claim C9. Setting a data rate above 4, a TX power index above 7, retries with a
  message type above 1 or a count outside 1 to 15, or a link-check mode above 2
  returns \<open>ESP_ERR_INVALID_ARG\<close> at once: the state is returned as it was, so
  nothing was written to, read from or flushed on the UART.
\<close>

theorem C9_out_of_range_rejected_without_io:
  "(dr > 4 \<longrightarrow> unit_lorawan_set_data_rate e dr s = (ESP_ERR_INVALID_ARG, s)) \<and>
   (power_index > 7 \<longrightarrow> unit_lorawan_set_tx_power e power_index s = (ESP_ERR_INVALID_ARG, s)) \<and>
   (message_type > 1 \<or> retries < 1 \<or> retries > 15 \<longrightarrow>
      unit_lorawan_set_retries e message_type retries s = (ESP_ERR_INVALID_ARG, s)) \<and>
   (mode > 2 \<longrightarrow> unit_lorawan_link_check e mode s = (ESP_ERR_INVALID_ARG, s))"
  by (simp add: unit_lorawan_set_data_rate_def unit_lorawan_set_tx_power_def
      unit_lorawan_set_retries_def unit_lorawan_link_check_def UNIT_LORAWAN_US915_DATA_RATE_MAX_def)

theorem C9_out_of_range_rejected_without_io_witness:
  "(5::uint8) > 4 \<and> (8::uint8) > 7 \<and> (0::uint8) < 1 \<and> (16::uint8) > 15 \<and> (2::uint8) > 1 \<and> (3::uint8) > 2 \<and>
   unit_lorawan_set_data_rate (modem_replies ''OK'') 5 st_init = (ESP_ERR_INVALID_ARG, st_init) \<and>
   unit_lorawan_set_tx_power (modem_replies ''OK'') 8 st_init = (ESP_ERR_INVALID_ARG, st_init) \<and>
   unit_lorawan_set_retries (modem_replies ''OK'') 2 3 st_init = (ESP_ERR_INVALID_ARG, st_init) \<and>
   unit_lorawan_set_retries (modem_replies ''OK'') 1 0 st_init = (ESP_ERR_INVALID_ARG, st_init) \<and>
   unit_lorawan_set_retries (modem_replies ''OK'') 1 16 st_init = (ESP_ERR_INVALID_ARG, st_init) \<and>
   unit_lorawan_link_check (modem_replies ''OK'') 3 st_init = (ESP_ERR_INVALID_ARG, st_init) \<and>
   trace st_init = []"
  using C9_out_of_range_rejected_without_io[of 5 "modem_replies ''OK''" st_init 8 2 3 3]
        C9_out_of_range_rejected_without_io[of 5 "modem_replies ''OK''" st_init 8 1 0 3]
        C9_out_of_range_rejected_without_io[of 5 "modem_replies ''OK''" st_init 8 1 16 3]
  by (simp add: st_init_def)

text \<open>
  Claim C6. The hex encoding of the payload writes, for every byte of the message,
  exactly two characters among \<open>0123456789ABCDEF\<close> (the high and the low nibble,
  zero-padded), so the hex string is twice as long as the message; decoding it gives
  the message back, and two different messages never have the same encoding.
\<close>

theorem C6_hex_encoding_roundtrip:
  "length (hex_encode m) = 2 * length m \<and>
   set (hex_encode m) \<subseteq> set ''0123456789ABCDEF'' \<and>
   hex_encode (c # m) = hex_digit (of_char c div 16) # hex_digit (of_char c mod 16) # hex_encode m \<and>
   spec_hex_decode (hex_encode m) = Some m \<and>
   inj hex_encode"
  using hex_encode_length hex_encode_chars hex_encode_Cons decode_encode hex_encode_inj by blast

theorem C6_hex_encoding_roundtrip_witness:
  "hex_encode [CHR 0x00, CHR ''A'', CHR 0xFF] = ''0041FF'' \<and>
   spec_hex_decode ''0041FF'' = Some [CHR 0x00, CHR ''A'', CHR 0xFF]"
proof -
  have e: "hex_encode [CHR 0x00, CHR ''A'', CHR 0xFF] = ''0041FF''"
    by (simp add: hex_encode_def snprintf_def fmt_02X_def hex_digit_def)
  from C6_hex_encoding_roundtrip[of "[CHR 0x00, CHR ''A'', CHR 0xFF]"] e show ?thesis by simp
qed









lemma connected_unfold:
  "unit_lorawan_send_at_command e ''CSTATUS?'' response_zero UNIT_LORAWAN_RESPONSE_TIMEOUT_MS s = (err, r, s1) \<Longrightarrow>
   unit_lorawan_connected e (Some b0) s =
     (err,
      Some (err = ESP_OK \<and> success r \<and>
            (case response_data r of
               None \<Rightarrow> False
             | Some data \<Rightarrow>
                 (case strstr (cstr data) ''+CSTATUS:'' of
                    None \<Rightarrow> False
                  | Some status_pos \<Rightarrow>
                      (case Option.bind (scan_lit ''+CSTATUS:'' status_pos) (scan_s 7) of
                         None \<Rightarrow> False
                       | Some status_code \<Rightarrow>
                           contains status_code ''04'' \<or> contains status_code ''08'')))),
      s1)"
  by (auto simp: unit_lorawan_connected_def)























lemmas otaa_eval = unit_lorawan_configOTTA_def unit_lorawan_cleanup_response_def
  unit_lorawan_uldlmode_str_def eval_defs

lemma io_only_step:
  "io_only s0 s \<Longrightarrow> unit_lorawan_send_at_command e cmd r t s = (err, r', s') \<Longrightarrow> io_only s0 s'"
  using io_only_framer[of s e cmd r t] io_only_trans by fastforce

lemma connected_facts:
  assumes c: "unit_lorawan_connected e (Some b) s = (err, st, s')"
  shows "io_only s s' \<and> (\<exists>v. st = Some v \<and> (v \<longrightarrow> err = ESP_OK))"
proof -
  obtain ferr r s1 where f: "unit_lorawan_send_at_command e ''CSTATUS?'' response_zero
      UNIT_LORAWAN_RESPONSE_TIMEOUT_MS s = (ferr, r, s1)"
    by (cases "unit_lorawan_send_at_command e ''CSTATUS?'' response_zero
      UNIT_LORAWAN_RESPONSE_TIMEOUT_MS s") auto
  from connected_unfold[OF f, of b] c io_only_step[OF io_only_refl f]
  show ?thesis by auto
qed

lemma monitor_loop_facts:
  "monitor_loop e p k b s = (c, s') \<Longrightarrow> \<not> b \<Longrightarrow>
     \<exists>evs. list_all is_poll evs \<and>
           trace s' = trace s @ evs @
             (if c then [JoinCallback (callback p) True 0 (user_data p)] else []) \<and>
           count_list evs (Delay 1000) \<le> unat (timeout_sec p) - k \<and>
           (\<not> c \<longrightarrow> count_list evs (Delay 1000) = unat (timeout_sec p) - k) \<and>
           now_ms s + 1000 * count_list evs (Delay 1000) \<le> now_ms s'"
proof (induction e p k b s arbitrary: c s' rule: monitor_loop.induct)
  case (1 e p k b s)
  show ?case
  proof (cases "k < unat (timeout_sec p)")
    case False
    with "1.prems" have "c = b" "s' = s" by (simp_all add: monitor_loop.simps[of e p k])
    with "1.prems"(2) False show ?thesis by (intro exI[of _ "[]"]) simp
  next
    case True
    let ?s1 = "vTaskDelay 1000 s"
    obtain cerr st s2 where cc: "unit_lorawan_connected e (Some b) ?s1 = (cerr, st, s2)"
      by (cases "unit_lorawan_connected e (Some b) ?s1") auto
    from connected_facts[OF cc] obtain v cevs where
      v: "st = Some v" "v \<longrightarrow> cerr = ESP_OK"
      and ce: "trace s2 = trace ?s1 @ cevs" "list_all is_io cevs" "now_ms ?s1 \<le> now_ms s2"
      by (auto simp: io_only_def)
    have t2: "trace s2 = trace s @ Delay 1000 # cevs" using ce(1) by (simp add: vTaskDelay_def)
    have n2: "now_ms s + 1000 \<le> now_ms s2" using ce(3) by (simp add: vTaskDelay_def)
    have lp: "list_all is_poll (Delay 1000 # cevs)"
      using ce(2) by (simp add: is_poll_def list_all_iff)
    have c0: "count_list cevs (Delay 1000) = 0"
      using ce(2) by (auto simp: list_all_iff is_io_def count_list_0_iff)
    show ?thesis
    proof (cases v)
      case True
      with v have "cerr = ESP_OK" by simp
      with "1.prems"(1) \<open>k < unat (timeout_sec p)\<close> cc v True
      have r: "c = True" "s' = invoke_callback p True 0 s2"
        by (simp_all add: monitor_loop.simps[of e p k] Let_def)
      have "trace s' = trace s @ (Delay 1000 # cevs) @ [JoinCallback (callback p) True 0 (user_data p)]"
        using r t2 by (simp add: invoke_callback_def)
      moreover have "now_ms s + 1000 * count_list (Delay 1000 # cevs) (Delay 1000) \<le> now_ms s'"
        using r n2 c0 by (simp add: invoke_callback_def)
      moreover have "count_list (Delay 1000 # cevs) (Delay 1000) \<le> unat (timeout_sec p) - k"
        using c0 \<open>k < unat (timeout_sec p)\<close> by simp
      ultimately show ?thesis using lp r(1) by (intro exI[of _ "Delay 1000 # cevs"]) simp
    next
      case False
      with "1.prems"(1) \<open>k < unat (timeout_sec p)\<close> cc v
      have m: "monitor_loop e p (k + 1) False s2 = (c, s')"
        by (simp add: monitor_loop.simps[of e p k] Let_def)
      have "\<exists>evs. list_all is_poll evs \<and>
           trace s' = trace s2 @ evs @
             (if c then [JoinCallback (callback p) True 0 (user_data p)] else []) \<and>
           count_list evs (Delay 1000) \<le> unat (timeout_sec p) - (k + 1) \<and>
           (\<not> c \<longrightarrow> count_list evs (Delay 1000) = unat (timeout_sec p) - (k + 1)) \<and>
           now_ms s2 + 1000 * count_list evs (Delay 1000) \<le> now_ms s'"
        using "1.IH"[OF \<open>k < unat (timeout_sec p)\<close> refl refl cc[symmetric] refl refl _ _ ] m v False cc
        by (simp add: Let_def)
      then obtain evs where ev: "list_all is_poll evs"
        "trace s' = trace s2 @ evs @ (if c then [JoinCallback (callback p) True 0 (user_data p)] else [])"
        "count_list evs (Delay 1000) \<le> unat (timeout_sec p) - (k + 1)"
        "\<not> c \<longrightarrow> count_list evs (Delay 1000) = unat (timeout_sec p) - (k + 1)"
        "now_ms s2 + 1000 * count_list evs (Delay 1000) \<le> now_ms s'"
        by blast
      have a1: "list_all is_poll ((Delay 1000 # cevs) @ evs)" using lp ev(1) by simp
      have a2: "trace s' = trace s @ ((Delay 1000 # cevs) @ evs) @
             (if c then [JoinCallback (callback p) True 0 (user_data p)] else [])"
        using t2 ev(2) by simp
      have a3: "count_list ((Delay 1000 # cevs) @ evs) (Delay 1000) = Suc (count_list evs (Delay 1000))"
        using c0 by simp
      have a4: "now_ms s + 1000 * count_list ((Delay 1000 # cevs) @ evs) (Delay 1000) \<le> now_ms s'"
        using n2 ev(5) a3 by simp
      show ?thesis
        using a1 a2 a3 a4 ev(3,4) \<open>k < unat (timeout_sec p)\<close>
        by (intro exI[of _ "(Delay 1000 # cevs) @ evs"]) auto
    qed
  qed
qed

lemma io_only_step1:
  "unit_lorawan_send_at_command e cmd r t s = (err, r', s') \<Longrightarrow> io_only s s'"
  by (rule io_only_step[OF io_only_refl])






lemma watcher_facts:
  assumes w: "ttn_join_monitor_task e p s = s'"
  shows "\<exists>evs joined code.
           list_all is_poll evs \<and>
           trace s' = trace s @ evs @
             [JoinCallback (callback p) joined code (user_data p), FreeMonitorParams, TaskDelete] \<and>
           ((joined \<and> code = 0) \<or> (\<not> joined \<and> code = 1)) \<and>
           count_list evs (Delay 1000) \<le> unat (timeout_sec p) \<and>
           (\<not> joined \<longrightarrow> count_list evs (Delay 1000) = unat (timeout_sec p)) \<and>
           now_ms s + 1000 * count_list evs (Delay 1000) \<le> now_ms s'"
proof -
  obtain c s1 where m: "monitor_loop e p 0 False s = (c, s1)"
    by (cases "monitor_loop e p 0 False s") auto
  from monitor_loop_facts[OF m] obtain evs where ev: "list_all is_poll evs"
    "trace s1 = trace s @ evs @ (if c then [JoinCallback (callback p) True 0 (user_data p)] else [])"
    "count_list evs (Delay 1000) \<le> unat (timeout_sec p) - 0"
    "\<not> c \<longrightarrow> count_list evs (Delay 1000) = unat (timeout_sec p) - 0"
    "now_ms s + 1000 * count_list evs (Delay 1000) \<le> now_ms s1"
    by blast
  have s': "s' = vTaskDelete (free_monitor_params (if \<not> c then invoke_callback p False 1 s1 else s1))"
    using w m by (simp add: ttn_join_monitor_task_def Let_def)
  have t: "trace s' = trace s @ evs @
             [JoinCallback (callback p) c (if c then 0 else 1) (user_data p), FreeMonitorParams, TaskDelete]"
    using ev(2) by (simp add: s' vTaskDelete_def free_monitor_params_def invoke_callback_def)
  have n: "now_ms s' = now_ms s1"
    by (simp add: s' vTaskDelete_def free_monitor_params_def invoke_callback_def)
  show ?thesis
    using ev(1,3,4,5) t n
    by (intro exI[of _ evs] exI[of _ c] exI[of _ "if c then 0 else 1"]) auto
qed

lemma watcher_first_check:
  "0 < unat (timeout_sec p) \<Longrightarrow>
   unit_lorawan_connected e (Some False) (vTaskDelay 1000 s) = (ESP_OK, Some True, s1) \<Longrightarrow>
   ttn_join_monitor_task e p s = vTaskDelete (free_monitor_params (invoke_callback p True 0 s1))"
  by (simp add: ttn_join_monitor_task_def monitor_loop.simps[of e p 0] Let_def)




















text \<open>
  Claim C1 does not hold of the code. \<open>unit_lorawan_configOTTA\<close> tests its three
  arguments for null pointers only: whatever the lengths of the identifiers and of the
  key, when its buffers can be allocated the call flushes the UART and writes its first
  command \<open>AT+CJOINMODE=0\<close> before anything else.
\<close>

theorem C1_configOTTA_checks_pointers_only:
  assumes mall: "\<forall>k. malloc_ok e k"
    and c: "unit_lorawan_configOTTA e (Some devEUI) (Some appEUI) (Some appKey) mode s = (err, s')"
  shows "\<exists>rest. trace s' = trace s @ UartFlush # UartWrite (at_line ''CJOINMODE=0'') # rest"
proof -
  obtain e1 r1 s1 where f: "unit_lorawan_send_at_command e ''CJOINMODE=0'' response_zero
      UNIT_LORAWAN_RESPONSE_TIMEOUT_MS s = (e1, r1, s1)"
    by (cases "unit_lorawan_send_at_command e ''CJOINMODE=0'' response_zero
      UNIT_LORAWAN_RESPONSE_TIMEOUT_MS s") auto
  have n: "CHR 0x00 \<notin> set ''CJOINMODE=0''" by simp
  from framer_facts[OF mall n f] obtain tails where
    t: "1 \<le> length tails" "trace s1 = trace s @ retry_trace (at_line ''CJOINMODE=0'') tails"
    by blast
  from retry_trace_start[OF t(1), of "at_line ''CJOINMODE=0''"] t(2) obtain rest1 where
    s1: "trace s1 = trace s @ UartFlush # UartWrite (at_line ''CJOINMODE=0'') # rest1"
    by auto
  have "io_only s1 s'"
    using c unfolding unit_lorawan_configOTTA_def
    by (auto simp: f io_only_refl split: prod.splits if_splits dest!: io_only_step1)
       (meson io_only_trans)+
  then obtain evs where "trace s' = trace s1 @ evs" by (auto simp: io_only_def)
  with s1 show ?thesis by simp
qed

text \<open>
  With a device identifier of 15 characters and a modem that answers \<open>OK\<close>, all seven
  commands are written to the UART, the short identifier among them, and the call
  returns \<open>ESP_OK\<close>.
\<close>

theorem C1_configOTTA_short_devEUI_is_sent:
  "length ''0123456789ABCDE'' = 15 \<and>
   fst (unit_lorawan_configOTTA (modem_replies ''OK'') (Some ''0123456789ABCDE'')
          (Some ''0123456789ABCDEF'') (Some ''0123456789ABCDEF0123456789ABCDEF'')
          DIFFERENT_FREQ_MODE st_init) = ESP_OK \<and>
   writes_of (trace (snd (unit_lorawan_configOTTA (modem_replies ''OK'') (Some ''0123456789ABCDE'')
          (Some ''0123456789ABCDEF'') (Some ''0123456789ABCDEF0123456789ABCDEF'')
          DIFFERENT_FREQ_MODE st_init))) =
     [at_line ''CJOINMODE=0'', at_line ''CDEVEUI=0123456789ABCDE'',
      at_line ''CAPPEUI=0123456789ABCDEF'', at_line ''CAPPKEY=0123456789ABCDEF0123456789ABCDEF'',
      at_line ''CULDLMODE=2'', at_line ''CCLASS=0'', at_line ''CWORKMODE=2''] \<and>
   take 2 (trace (snd (unit_lorawan_configOTTA (modem_replies ''OK'') (Some ''0123456789ABCDE'')
          (Some ''0123456789ABCDEF'') (Some ''0123456789ABCDEF0123456789ABCDEF'')
          DIFFERENT_FREQ_MODE st_init))) = [UartFlush, UartWrite (at_line ''CJOINMODE=0'')]"
proof -
  let ?e = "modem_replies ''OK''"
  let ?r = "unit_lorawan_configOTTA ?e (Some ''0123456789ABCDE'')
          (Some ''0123456789ABCDEF'') (Some ''0123456789ABCDEF0123456789ABCDEF'')
          DIFFERENT_FREQ_MODE st_init"
  have m: "\<forall>k. malloc_ok ?e k" by (simp add: modem_replies_def)
  have c: "?r = (fst ?r, snd ?r)" by simp
  from C1_configOTTA_checks_pointers_only[OF m c]
  have t: "take 2 (trace (snd ?r)) = [UartFlush, UartWrite (at_line ''CJOINMODE=0'')]"
    by (auto simp: st_init_def)
  have "case ?r of (err, s') \<Rightarrow> err = ESP_OK \<and> writes_of (trace s') =
     [at_line ''CJOINMODE=0'', at_line ''CDEVEUI=0123456789ABCDE'',
      at_line ''CAPPEUI=0123456789ABCDEF'', at_line ''CAPPKEY=0123456789ABCDEF0123456789ABCDEF'',
      at_line ''CULDLMODE=2'', at_line ''CCLASS=0'', at_line ''CWORKMODE=2'']"
    by (simp add: otaa_eval writes_of_def Let_def)
  then have "fst ?r = ESP_OK \<and> writes_of (trace (snd ?r)) =
     [at_line ''CJOINMODE=0'', at_line ''CDEVEUI=0123456789ABCDE'',
      at_line ''CAPPEUI=0123456789ABCDEF'', at_line ''CAPPKEY=0123456789ABCDEF0123456789ABCDEF'',
      at_line ''CULDLMODE=2'', at_line ''CCLASS=0'', at_line ''CWORKMODE=2'']"
    by (simp only: case_prod_unfold)
  with t show ?thesis by simp
qed

end
